theory Spec2Isabelle
  imports Complex_Main "HOL-Library.Sublist" "HOL-Library.Log_Nat"
begin

section \<open>Data model of NY\_AIRBnB.py\<close>

text \<open>
  A cell of a numeric column. \<open>Fin x\<close> is the number \<open>x\<close>: an integer in an \<open>int64\<close> column,
  a finite double other than \<open>-0.0\<close> in a \<open>float64\<close> column, so \<open>Fin 0\<close> is \<open>+0.0\<close> there.
  \<open>NZero\<close> is the double \<open>-0.0\<close>, \<open>PInf\<close> and \<open>NInf\<close> are the two infinities and \<open>NaN\<close> is
  the missing value; these four occur in \<open>float64\<close> columns only.
\<close>

datatype float64 = Fin real | NZero | PInf | NInf | NaN

text \<open>The number a cell denotes, when it denotes one; \<open>-0.0\<close> denotes zero.\<close>

fun finite_value :: "float64 \<Rightarrow> real option" where
  "finite_value (Fin x) = Some x"
| "finite_value NZero = Some 0"
| "finite_value PInf = None"
| "finite_value NInf = None"
| "finite_value NaN = None"

text \<open>Comparison \<open>x <= y\<close> of two cells: false as soon as one side is NaN; \<open>-0.0\<close>
  compares as zero.\<close>

fun fle :: "float64 \<Rightarrow> float64 \<Rightarrow> bool" where
  "fle NaN _ = False"
| "fle _ NaN = False"
| "fle NInf _ = True"
| "fle _ PInf = True"
| "fle PInf _ = False"
| "fle _ NInf = False"
| "fle (Fin a) (Fin b) = (a \<le> b)"
| "fle NZero (Fin b) = (0 \<le> b)"
| "fle (Fin a) NZero = (a \<le> 0)"
| "fle NZero NZero = True"

text \<open>Comparison \<open>x >= y\<close> is \<open>y <= x\<close>.\<close>

definition fge :: "float64 \<Rightarrow> float64 \<Rightarrow> bool" where
  "fge x y = fle y x"

subsection \<open>Arithmetic of doubles\<close>

fun is_nan :: "float64 \<Rightarrow> bool" where
  "is_nan NaN = True"
| "is_nan _ = False"

fun is_inf :: "float64 \<Rightarrow> bool" where
  "is_inf PInf = True"
| "is_inf NInf = True"
| "is_inf _ = False"

fun is_zero :: "float64 \<Rightarrow> bool" where
  "is_zero (Fin x) = (x = 0)"
| "is_zero NZero = True"
| "is_zero _ = False"

text \<open>The sign bit: set for negative numbers, \<open>-0.0\<close> and minus infinity.\<close>

fun sign_bit :: "float64 \<Rightarrow> bool" where
  "sign_bit (Fin x) = (x < 0)"
| "sign_bit NZero = True"
| "sign_bit NInf = True"
| "sign_bit _ = False"

fun val :: "float64 \<Rightarrow> real" where
  "val (Fin x) = x"
| "val _ = 0"

definition signed_inf :: "bool \<Rightarrow> float64" where
  "signed_inf neg = (if neg then NInf else PInf)"

definition signed_zero :: "bool \<Rightarrow> float64" where
  "signed_zero neg = (if neg then NZero else Fin 0)"

text \<open>
  Rounding of a real number to the nearest double, ties to the even significand. A
  positive double is \<open>m * 2 ^ e\<close> with \<open>m < 2 ^ 53\<close> and \<open>-1074 <= e\<close>; the exponent for
  \<open>a\<close> is \<open>floor (log2 a) - 52\<close>, but at least \<open>-1074\<close>, where the subnormal numbers
  are. \<open>floorlog 2 n\<close> is the number of binary digits of \<open>n\<close>.
\<close>

definition ilog2 :: "real \<Rightarrow> int" where
  "ilog2 a = (if 1 \<le> a then int (floorlog 2 (nat \<lfloor>a\<rfloor>)) - 1
              else - int (floorlog 2 (nat (\<lceil>1 / a\<rceil> - 1))))"

definition round_half_even :: "real \<Rightarrow> int" where
  "round_half_even q =
     (let f = \<lfloor>q\<rfloor>
      in if q - of_int f < 1 / 2 then f
         else if 1 / 2 < q - of_int f then f + 1
         else if even f then f else f + 1)"

definition nearest64 :: "real \<Rightarrow> real" where
  "nearest64 a =
     (let e = max (ilog2 a - 52) (- 1074)
      in of_int (round_half_even (a / 2 powi e)) * 2 powi e)"

text \<open>A result of magnitude \<open>2 ^ 1024\<close> or more overflows to an infinity, and a nonzero
  number that rounds to zero keeps its sign.\<close>

definition round64 :: "real \<Rightarrow> float64" where
  "round64 x =
     (if x = 0 then Fin 0
      else let v = nearest64 \<bar>x\<bar>
           in if 2 ^ 1024 \<le> v then (if x < 0 then NInf else PInf)
              else if v = 0 then (if x < 0 then NZero else Fin 0)
              else Fin (if x < 0 then - v else v))"

text \<open>The cast of a cell to \<open>float64\<close>: an integer is rounded to the nearest double, a
  double is unchanged.\<close>

fun to_float :: "float64 \<Rightarrow> float64" where
  "to_float (Fin x) = round64 x"
| "to_float y = y"

text \<open>Multiplication of two doubles: NaN propagates, zero times infinity is NaN, the sign
  of the result is the exclusive or of the signs, and a finite product is rounded.\<close>

definition fmul :: "float64 \<Rightarrow> float64 \<Rightarrow> float64" where
  "fmul x y =
     (if is_nan x \<or> is_nan y then NaN
      else if (is_zero x \<and> is_inf y) \<or> (is_inf x \<and> is_zero y) then NaN
      else if is_inf x \<or> is_inf y then signed_inf (sign_bit x \<noteq> sign_bit y)
      else if is_zero x \<or> is_zero y then signed_zero (sign_bit x \<noteq> sign_bit y)
      else round64 (val x * val y))"

text \<open>
  Division of two doubles as numpy performs it on a column: dividing by zero raises
  nothing, it yields an infinity whose sign is the exclusive or of the signs of the
  numerator and of the zero, and NaN for \<open>0 / 0\<close>.
\<close>

definition fdiv :: "float64 \<Rightarrow> float64 \<Rightarrow> float64" where
  "fdiv x y =
     (if is_nan x \<or> is_nan y then NaN
      else if (is_inf x \<and> is_inf y) \<or> (is_zero x \<and> is_zero y) then NaN
      else if is_inf x \<or> is_zero y then signed_inf (sign_bit x \<noteq> sign_bit y)
      else if is_zero x \<or> is_inf y then signed_zero (sign_bit x \<noteq> sign_bit y)
      else round64 (val x / val y))"

text \<open>
  One row of the table \<open>df\<close>, with the columns the script reads. A missing borough is
  \<open>None\<close>. The coordinates are taken to be finite, so they are reals.
\<close>

record listing =
  name :: string
  latitude :: real
  longitude :: real
  price :: float64
  neighbourhood :: string
  neighbourhood_group :: "string option"
  number_of_reviews :: float64
  review_scores_rating :: float64

text \<open>A data frame is the list of its rows in index order; a column is a list of values.\<close>

type_synonym dataframe = "listing list"

section \<open>Data filtering (lines 56 to 59)\<close>

text \<open>\<open>Series.between(left, right)\<close> with the default \<open>inclusive="both"\<close>:
  the mask \<open>(s >= left) & (s <= right)\<close>.\<close>

definition series_ge :: "float64 list \<Rightarrow> real \<Rightarrow> bool list" where
  "series_ge s left = map (\<lambda>x. fge x (Fin left)) s"

definition series_le :: "float64 list \<Rightarrow> real \<Rightarrow> bool list" where
  "series_le s right = map (\<lambda>x. fle x (Fin right)) s"

definition mask_and :: "bool list \<Rightarrow> bool list \<Rightarrow> bool list" where
  "mask_and m1 m2 = map (\<lambda>(a, b). a \<and> b) (zip m1 m2)"

definition between :: "float64 list \<Rightarrow> real \<Rightarrow> real \<Rightarrow> bool list" where
  "between s left right = mask_and (series_ge s left) (series_le s right)"

text \<open>\<open>Series.isin(values)\<close>: the mask of the entries that occur in \<open>values\<close>; a missing
  entry matches a missing value.\<close>

definition isin :: "'a list \<Rightarrow> 'a list \<Rightarrow> bool list" where
  "isin s vals = map (\<lambda>x. x \<in> set vals) s"

text \<open>Indexing a frame with a boolean mask, \<open>df[mask]\<close>: the rows whose mask entry is true.\<close>

definition select_rows :: "'a list \<Rightarrow> bool list \<Rightarrow> 'a list" where
  "select_rows df msk = map fst (filter snd (zip df msk))"

definition filtered_df :: "dataframe \<Rightarrow> real \<times> real \<Rightarrow> string option list \<Rightarrow> dataframe" where
  "filtered_df df price_range borough_filter =
     select_rows df
       (mask_and (between (map price df) (fst price_range) (snd price_range))
                 (isin (map neighbourhood_group df) borough_filter))"

text \<open>The predicate a row has to satisfy, for the statements below.\<close>

definition row_selected :: "real \<times> real \<Rightarrow> string option list \<Rightarrow> listing \<Rightarrow> bool" where
  "row_selected price_range borough_filter r =
     ((fle (Fin (fst price_range)) (price r) \<and> fle (price r) (Fin (snd price_range)))
      \<and> neighbourhood_group r \<in> set borough_filter)"

section \<open>Value score (lines 205 and 206)\<close>

text \<open>
  pandas gives a numeric column the dtype \<open>int64\<close> when every entry of the file is an
  integer, and \<open>float64\<close> otherwise. The product of two \<open>int64\<close> columns is taken in
  \<open>int64\<close> and wraps around modulo \<open>2 ^ 64\<close>; in every other case both cells are cast
  to \<open>float64\<close> and multiplied as doubles.
\<close>

datatype dtype = Int64 | Float64

definition wrap64 :: "int \<Rightarrow> int" where
  "wrap64 k = (k + 2 ^ 63) mod 2 ^ 64 - 2 ^ 63"

definition col_mul :: "dtype \<Rightarrow> dtype \<Rightarrow> float64 \<Rightarrow> float64 \<Rightarrow> float64" where
  "col_mul d1 d2 x y =
     (if d1 = Int64 \<and> d2 = Int64
      then (case (x, y) of
              (Fin a, Fin b) \<Rightarrow> Fin (of_int (wrap64 (\<lfloor>a\<rfloor> * \<lfloor>b\<rfloor>)))
            | _ \<Rightarrow> fmul (to_float x) (to_float y))
      else fmul (to_float x) (to_float y))"

definition series_mul :: "dtype \<Rightarrow> dtype \<Rightarrow> float64 list \<Rightarrow> float64 list \<Rightarrow> float64 list" where
  "series_mul d1 d2 s1 s2 = map (\<lambda>(a, b). col_mul d1 d2 a b) (zip s1 s2)"

text \<open>The operator \<open>/\<close> is true division: both columns are cast to \<open>float64\<close> first.\<close>

definition series_div :: "float64 list \<Rightarrow> float64 list \<Rightarrow> float64 list" where
  "series_div s1 s2 = map (\<lambda>(a, b). fdiv (to_float a) (to_float b)) (zip s1 s2)"

text \<open>The column assigned to \<open>filtered_df['value_score']\<close>; \<open>d1\<close> and \<open>d2\<close> are the dtypes
  of the columns \<open>number_of_reviews\<close> and \<open>review_scores_rating\<close>.\<close>

definition value_score :: "dtype \<Rightarrow> dtype \<Rightarrow> dataframe \<Rightarrow> float64 list" where
  "value_score d1 d2 fdf =
     series_div
       (series_mul d1 d2 (map number_of_reviews fdf) (map review_scores_rating fdf))
       (map price fdf)"

section \<open>Landmark buffer analysis (lines 134 to 155)\<close>

text \<open>A coordinate pair \<open>(x, y)\<close>, longitude first, as \<open>Point(xy)\<close> is built in the script.\<close>

type_synonym point = "real \<times> real"

text \<open>\<open>geometry = [Point(xy) for xy in zip(filtered_df.longitude, filtered_df.latitude)]\<close>\<close>

definition geometry :: "dataframe \<Rightarrow> point list" where
  "geometry fdf = zip (map longitude fdf) (map latitude fdf)"

text \<open>
  \<open>Point.buffer(d)\<close> of shapely does not return a disk. With the default of 16 segments
  per quarter circle it returns the polygon whose exterior ring starts at
  \<open>(x + d, y)\<close>, runs clockwise over the 64 points at the angles \<open>- i * (2 * pi / 64)\<close>
  of the circle of radius \<open>d\<close>, and is closed with its first point. For \<open>d <= 0\<close> the
  result is the empty polygon. A ring is the list of its points.
\<close>

definition quad_segs :: nat where
  "quad_segs = 16"

definition circle_vertex :: "point \<Rightarrow> real \<Rightarrow> nat \<Rightarrow> point" where
  "circle_vertex c d i =
     (fst c + d * cos (- (real i * (2 * pi / real (4 * quad_segs)))),
      snd c + d * sin (- (real i * (2 * pi / real (4 * quad_segs)))))"

definition buffer_point :: "point \<Rightarrow> real \<Rightarrow> point list" where
  "buffer_point c d =
     (if d \<le> 0 then []
      else map (circle_vertex c d) [0 ..< 4 * quad_segs] @ [circle_vertex c d 0])"

text \<open>The orientation of \<open>p\<close> against the directed edge from \<open>a\<close> to \<open>b\<close>: negative when
  \<open>p\<close> lies strictly to the right of the edge.\<close>

definition cross :: "point \<Rightarrow> point \<Rightarrow> point \<Rightarrow> real" where
  "cross a b p =
     (fst b - fst a) * (snd p - snd a) - (snd b - snd a) * (fst p - fst a)"

text \<open>
  \<open>within\<close> for a point and a polygon with a convex, clockwise exterior ring, which the
  buffer of a point is: the point has to lie in the interior of the polygon, that is
  strictly to the right of every edge. A point on the boundary is not within the
  polygon, and nothing is within the empty polygon.
\<close>

definition within_ring :: "point list \<Rightarrow> point \<Rightarrow> bool" where
  "within_ring ring p =
     (ring \<noteq> [] \<and> list_all (\<lambda>(a, b). cross a b p < 0) (zip ring (tl ring)))"

text \<open>\<open>gdf.within(region)\<close>: the mask of the rows whose point is within the region.\<close>

definition gdf_within :: "point list \<Rightarrow> (point \<Rightarrow> bool) \<Rightarrow> bool list" where
  "gdf_within geom region = map region geom"

text \<open>\<open>gdf[gdf.within(region)]\<close>, the query of lines 154 and 155.\<close>

definition within_listings :: "dataframe \<Rightarrow> (point \<Rightarrow> bool) \<Rightarrow> dataframe" where
  "within_listings fdf region = select_rows fdf (gdf_within (geometry fdf) region)"

text \<open>The query for a point landmark \<open>c\<close> buffered by \<open>d\<close>.\<close>

definition point_landmark_listings :: "dataframe \<Rightarrow> point \<Rightarrow> real \<Rightarrow> dataframe" where
  "point_landmark_listings fdf c d = within_listings fdf (within_ring (buffer_point c d))"

text \<open>The Statue of Liberty is the point landmark of the script, buffered by 0.02.\<close>

definition statue_of_liberty :: point where
  "statue_of_liberty = (- 74.0445, 40.6892)"

definition sol_listings :: "dataframe \<Rightarrow> dataframe" where
  "sol_listings fdf = point_landmark_listings fdf statue_of_liberty 0.02"

text \<open>
  Central Park is a polygon landmark. The interior of its buffer is computed by the
  geometry library from the polygon; it is a parameter here.
\<close>

definition central_park_listings :: "dataframe \<Rightarrow> (point \<Rightarrow> bool) \<Rightarrow> dataframe" where
  "central_park_listings fdf central_park_buffer = within_listings fdf central_park_buffer"

text \<open>The squared planar distance of two coordinate pairs.\<close>

definition dist2 :: "point \<Rightarrow> point \<Rightarrow> real" where
  "dist2 p c = (fst p - fst c)\<^sup>2 + (snd p - snd c)\<^sup>2"

section \<open>Example rows\<close>

definition row :: "string \<Rightarrow> real \<Rightarrow> real \<Rightarrow> float64 \<Rightarrow> string option \<Rightarrow> float64 \<Rightarrow> float64 \<Rightarrow> listing" where
  "row nm lon lat p b n s =
     \<lparr>name = nm, latitude = lat, longitude = lon, price = p, neighbourhood = [],
      neighbourhood_group = b, number_of_reviews = n, review_scores_rating = s\<rparr>"

definition manhattan :: "string option" where
  "manhattan = Some ''Manhattan''"

definition brooklyn :: "string option" where
  "brooklyn = Some ''Brooklyn''"

definition queens :: "string option" where
  "queens = Some ''Queens''"

definition row_lo :: listing where
  "row_lo = row ''a'' (- 74.0440) 40.6895 (Fin 50) manhattan (Fin 10) (Fin 4.5)"

definition row_hi :: listing where
  "row_hi = row ''b'' (- 73.9) 40.7 (Fin 300) brooklyn (Fin 3) (Fin 4)"

definition row_below :: listing where
  "row_below = row ''c'' (- 73.95) 40.75 (Fin 49.99) manhattan (Fin 1) (Fin 5)"

definition row_queens :: listing where
  "row_queens = row ''d'' (- 73.8) 40.72 (Fin 90) queens (Fin 10) (Fin 4.5)"

definition row_nan :: listing where
  "row_nan = row ''e'' (- 73.97) 40.78 NaN manhattan (Fin 2) (Fin 4)"

definition row_free :: listing where
  "row_free = row ''f'' (- 73.98) 40.76 (Fin 0) manhattan (Fin 5) (Fin 5)"

definition row_neg_zero :: listing where
  "row_neg_zero = row ''h'' (- 73.98) 40.76 NZero manhattan (Fin 5) (Fin 5)"

definition row_third :: listing where
  "row_third = row ''i'' (- 73.96) 40.77 (Fin 3) manhattan (Fin 1) (Fin 1)"

definition row_on_circle :: listing where
  "row_on_circle = row ''g'' (- 74.0325) 40.7052 (Fin 120) manhattan (Fin 7) (Fin 4)"

section \<open>Properties of the masks and of row selection\<close>

lemma select_rows_map:
  "select_rows df (map P df) = filter P df"
  by (induction df) (simp_all add: select_rows_def)

lemma mask_and_map:
  "mask_and (map P xs) (map Q xs) = map (\<lambda>x. P x \<and> Q x) xs"
  by (induction xs) (simp_all add: mask_and_def)

lemma between_map:
  "between (map f xs) lo hi = map (\<lambda>x. fle (Fin lo) (f x) \<and> fle (f x) (Fin hi)) xs"
  by (induction xs) (simp_all add: between_def series_ge_def series_le_def mask_and_def fge_def)

lemma isin_map:
  "isin (map f xs) vals = map (\<lambda>x. f x \<in> set vals) xs"
  by (simp add: isin_def)

lemma filtered_df_filter:
  "filtered_df df pr bf = filter (row_selected pr bf) df"
proof -
  have "mask_and (between (map price df) (fst pr) (snd pr))
                 (isin (map neighbourhood_group df) bf)
        = map (row_selected pr bf) df"
    unfolding between_map isin_map mask_and_map row_selected_def ..
  then show ?thesis
    by (simp add: filtered_df_def select_rows_map)
qed

lemma value_score_map:
  "value_score d1 d2 fdf =
     map (\<lambda>r. fdiv (to_float (col_mul d1 d2 (number_of_reviews r) (review_scores_rating r)))
                    (to_float (price r))) fdf"
  by (induction fdf) (simp_all add: value_score_def series_div_def series_mul_def)

lemma fle_between_empty:
  "hi < lo \<Longrightarrow> \<not> (fle (Fin lo) x \<and> fle x (Fin hi))"
  by (cases x) simp_all

lemma fle_finite_value_iff:
  "(fle (Fin lo) x \<and> fle x (Fin hi)) = (\<exists>p. finite_value x = Some p \<and> lo \<le> p \<and> p \<le> hi)"
  by (cases x) auto

lemma to_float_zero:
  "is_zero p \<Longrightarrow> to_float p = p"
  by (cases p) (simp_all add: round64_def)

text \<open>The product of two \<open>int64\<close> cells is exact as long as it fits in 64 bits.\<close>

lemma wrap64_id:
  "- (2 ^ 63) \<le> k \<Longrightarrow> k < 2 ^ 63 \<Longrightarrow> wrap64 k = k"
  by (simp add: wrap64_def)

lemma col_mul_int64_exact:
  "- (2 ^ 63) \<le> a * b \<Longrightarrow> a * b < 2 ^ 63
   \<Longrightarrow> col_mul Int64 Int64 (Fin (of_int a)) (Fin (of_int b)) = Fin (of_int a * of_int b)"
  by (simp add: col_mul_def wrap64_id)

lemmas round64_eval =
  round64_def nearest64_def ilog2_def round_half_even_def compute_floorlog Let_def

lemmas example_rows =
  row_def row_lo_def row_hi_def row_below_def row_queens_def row_nan_def row_free_def
  row_neg_zero_def row_third_def row_on_circle_def manhattan_def brooklyn_def queens_def

section \<open>The filter\<close>

text \<open>
  Claim C3. For every table, price bounds and borough list, the filter returns exactly
  the rows whose price is a number \<open>p\<close> with \<open>priceMin <= p <= priceMax\<close> and whose borough
  occurs in the borough list, in the order of the table. When \<open>priceMin <= priceMax\<close>, a
  row of an admitted borough whose price equals \<open>priceMin\<close> or \<open>priceMax\<close> is returned.
\<close>

theorem filter_exact:
  "filtered_df df (priceMin, priceMax) boroughs =
     filter (\<lambda>r. (\<exists>p. finite_value (price r) = Some p \<and> priceMin \<le> p \<and> p \<le> priceMax)
                  \<and> neighbourhood_group r \<in> set boroughs) df
   \<and> (\<forall>r \<in> set df. priceMin \<le> priceMax \<and> neighbourhood_group r \<in> set boroughs
          \<and> (finite_value (price r) = Some priceMin \<or> finite_value (price r) = Some priceMax)
        \<longrightarrow> r \<in> set (filtered_df df (priceMin, priceMax) boroughs))"
proof -
  have sel: "row_selected (priceMin, priceMax) boroughs =
      (\<lambda>r. (\<exists>p. finite_value (price r) = Some p \<and> priceMin \<le> p \<and> p \<le> priceMax)
            \<and> neighbourhood_group r \<in> set boroughs)"
    by (rule ext) (simp add: row_selected_def fle_finite_value_iff)
  show ?thesis
    unfolding filtered_df_filter sel by auto
qed

theorem filter_exact_witness:
  "filtered_df [row_lo, row_below, row_queens, row_hi] (50, 300) [manhattan, brooklyn]
     = [row_lo, row_hi]
   \<and> row_lo \<in> set (filtered_df [row_lo, row_below, row_queens, row_hi] (50, 300) [manhattan, brooklyn])
   \<and> row_hi \<in> set (filtered_df [row_lo, row_below, row_queens, row_hi] (50, 300) [manhattan, brooklyn])"
  using filter_exact [of "[row_lo, row_below, row_queens, row_hi]" 50 300 "[manhattan, brooklyn]"]
  by (simp add: example_rows)

text \<open>
  Claim C4. When \<open>priceMin > priceMax\<close> the filter returns the empty table; the model has
  no failing branch, so nothing is raised.
\<close>

theorem filter_invalid_range:
  "priceMax < priceMin \<Longrightarrow> filtered_df df (priceMin, priceMax) boroughs = []"
  by (simp add: filtered_df_filter row_selected_def fle_between_empty)

theorem filter_invalid_range_witness:
  "(50::real) < 300
   \<and> filtered_df [row_lo, row_below, row_queens, row_hi] (300, 50) [manhattan, brooklyn] = []"
  using filter_invalid_range [of 50 300 "[row_lo, row_below, row_queens, row_hi]"
      "[manhattan, brooklyn]"]
  by simp

text \<open>
  Claim C7. The output of the filter is a subsequence of the table: the selected rows
  keep their relative order, and none is duplicated or inserted.
\<close>

theorem filter_subseq:
  "subseq (filtered_df df price_range boroughs) df"
  by (simp add: filtered_df_filter)

text \<open>
  Claim C8. Every row returned by the filter is a row of the table, and every row
  returned by a landmark query, for any region and for the buffer of a point landmark, is
  a row of the frame that was queried.
\<close>

theorem outputs_subset:
  "set (filtered_df df price_range boroughs) \<subseteq> set df
   \<and> set (within_listings fdf region) \<subseteq> set fdf
   \<and> set (point_landmark_listings fdf c d) \<subseteq> set fdf"
  by (auto simp add: filtered_df_filter within_listings_def point_landmark_listings_def
      gdf_within_def select_rows_def dest: set_zip_leftD)

text \<open>
  Claim C9. With an empty borough list the filter returns the empty table, whatever the
  table and the price range are.
\<close>

theorem filter_empty_boroughs:
  "filtered_df df price_range [] = []"
  by (simp add: filtered_df_filter row_selected_def)

text \<open>
  Claim C10. A row whose price is missing (NaN) is never returned by the filter: both
  comparisons of the range test are false on NaN, and nothing is raised.
\<close>

theorem filter_nan_price:
  "price r = NaN \<Longrightarrow> r \<notin> set (filtered_df df price_range boroughs)"
  by (simp add: filtered_df_filter row_selected_def)

theorem filter_nan_price_witness:
  "price row_nan = NaN
   \<and> row_nan \<notin> set (filtered_df [row_lo, row_nan, row_hi] (0, 1000) [manhattan, brooklyn])
   \<and> filtered_df [row_lo, row_nan, row_hi] (0, 1000) [manhattan, brooklyn] = [row_lo, row_hi]"
  using filter_nan_price [of row_nan "[row_lo, row_nan, row_hi]" "(0, 1000)"
      "[manhattan, brooklyn]"]
  by (simp add: example_rows filtered_df_filter row_selected_def)

section \<open>The value score\<close>




text \<open>
  Claim C1 does not hold as stated: no sentinel is substituted for a price of zero. The
  row with price 0, 5 reviews and rating 5 gets the score plus infinity.
\<close>

theorem value_score_zero_price_counterexample:
  "price row_free = Fin 0 \<and> number_of_reviews row_free = Fin 5
   \<and> review_scores_rating row_free = Fin 5
   \<and> value_score Float64 Float64 [row_free] = [PInf]"
  by (simp add: example_rows value_score_map col_mul_def fmul_def fdiv_def signed_inf_def
      round64_eval)

text \<open>
  Claim C1, amended. For a row whose price is zero, be it the integer 0, \<open>+0.0\<close> or
  \<open>-0.0\<close>, nothing is raised and no sentinel is substituted. The score is NaN when the
  product of reviews and rating, as a double, is zero or NaN. Otherwise it is an
  infinity: plus infinity when the product and the zero price have the same sign,
  minus infinity when they differ. The scores of the rows before and after it are the
  scores they have without that row.
\<close>

theorem value_score_zero_price:
  assumes "is_zero (price r)"
  shows "value_score d1 d2 (xs @ r # ys) =
           value_score d1 d2 xs @
           (let x = to_float (col_mul d1 d2 (number_of_reviews r) (review_scores_rating r))
            in if is_nan x \<or> is_zero x then NaN
               else signed_inf (sign_bit x \<noteq> sign_bit (price r)))
           # value_score d1 d2 ys"
proof -
  define x where
    "x = to_float (col_mul d1 d2 (number_of_reviews r) (review_scores_rating r))"
  have "fdiv x (price r) =
          (if is_nan x \<or> is_zero x then NaN
           else signed_inf (sign_bit x \<noteq> sign_bit (price r)))"
    using assms by (cases "price r") (auto simp add: fdiv_def)
  then show ?thesis
    using assms by (simp add: value_score_map to_float_zero x_def Let_def)
qed

theorem value_score_zero_price_witness:
  "is_zero (price row_free) \<and> is_zero (price row_neg_zero)
   \<and> value_score Float64 Float64 ([row_queens] @ row_free # [row_queens])
       = [Fin 0.5, PInf, Fin 0.5]
   \<and> value_score Float64 Float64 ([] @ row_neg_zero # []) = [NInf]"
proof -
  have zero: "is_zero (price row_free)" "is_zero (price row_neg_zero)"
    by (simp_all add: example_rows)
  have sign: "\<not> sign_bit (price row_free)" "sign_bit (price row_neg_zero)"
    by (simp_all add: example_rows)
  have prod: "to_float (col_mul Float64 Float64 (number_of_reviews row_free)
                (review_scores_rating row_free)) = Fin 25"
    "to_float (col_mul Float64 Float64 (number_of_reviews row_neg_zero)
       (review_scores_rating row_neg_zero)) = Fin 25"
    by (simp_all add: example_rows col_mul_def fmul_def round64_eval)
  have half: "value_score Float64 Float64 [row_queens] = [Fin 0.5]"
    by (simp add: example_rows value_score_map col_mul_def fmul_def fdiv_def round64_eval)
  have none: "value_score Float64 Float64 [] = []"
    by (simp add: value_score_map)
  show ?thesis
    using value_score_zero_price [OF zero(1), of Float64 Float64 "[row_queens]" "[row_queens]"]
      value_score_zero_price [OF zero(2), of Float64 Float64 "[]" "[]"]
    by (simp add: zero sign prod half none signed_inf_def)
qed

section \<open>The landmark query\<close>

text \<open>The edges of the buffer ring: consecutive vertices, the last edge closing the ring.\<close>

lemma zip_map_upt_tl:
  "zip (map f [0..<Suc n]) (tl (map f [0..<Suc n])) = map (\<lambda>i. (f i, f (Suc i))) [0..<n]"
  by (rule nth_equalityI) (simp_all add: nth_tl del: upt_Suc)

lemma circle_vertex_closed:
  "circle_vertex c d (4 * quad_segs) = circle_vertex c d 0"
  by (simp add: circle_vertex_def quad_segs_def)

lemma buffer_point_ring:
  "0 < d \<Longrightarrow> buffer_point c d = map (circle_vertex c d) [0..<Suc (4 * quad_segs)]"
  by (simp add: buffer_point_def circle_vertex_closed)

lemma within_ring_buffer_iff:
  "within_ring (buffer_point c d) p \<longleftrightarrow>
     0 < d \<and> (\<forall>i<64. cross (circle_vertex c d i) (circle_vertex c d (Suc i)) p < 0)"
proof (cases "0 < d")
  case False
  then show ?thesis by (simp add: within_ring_def buffer_point_def)
next
  case True
  have "zip (buffer_point c d) (tl (buffer_point c d))
        = map (\<lambda>i. (circle_vertex c d i, circle_vertex c d (Suc i))) [0..<4 * quad_segs]"
    unfolding buffer_point_ring [OF True] by (rule zip_map_upt_tl)
  moreover have "buffer_point c d \<noteq> []"
    using True by (simp add: buffer_point_def)
  ultimately show ?thesis
    using True by (auto simp add: within_ring_def list_all_iff quad_segs_def)
qed

text \<open>
  The orientation test against the edge number \<open>i\<close> is a half-plane test: the edge has the
  outward normal at the angle \<open>- (2 * i + 1) * pi / 64\<close> and the distance
  \<open>d * cos (pi / 64)\<close> from the landmark.
\<close>

lemma cross_algebra:
  fixes cm sm ch sh d cx cy px py :: real
  assumes "sm * sm + cm * cm = 1"
  shows "((cx + d * (cm * ch + sm * sh)) - (cx + d * (cm * ch - sm * sh)))
           * (py - (cy + d * (sm * ch + cm * sh)))
         - ((cy + d * (sm * ch - cm * sh)) - (cy + d * (sm * ch + cm * sh)))
           * (px - (cx + d * (cm * ch - sm * sh)))
         = 2 * d * sh * ((px - cx) * cm + (py - cy) * sm - d * ch)"
proof -
  have "((cx + d * (cm * ch + sm * sh)) - (cx + d * (cm * ch - sm * sh)))
           * (py - (cy + d * (sm * ch + cm * sh)))
         - ((cy + d * (sm * ch - cm * sh)) - (cy + d * (sm * ch + cm * sh)))
           * (px - (cx + d * (cm * ch - sm * sh)))
         = 2 * d * sh * ((px - cx) * cm + (py - cy) * sm - d * ch * (sm * sm + cm * cm))"
    by (simp add: algebra_simps)
  then show ?thesis
    by (simp only: assms mult_1_right)
qed

lemma cross_circle_edge:
  "cross (circle_vertex c d i) (circle_vertex c d (Suc i)) p =
     2 * d * sin (pi / 64) *
       ((fst p - fst c) * cos (- (real (2 * i + 1) * (pi / 64)))
        + (snd p - snd c) * sin (- (real (2 * i + 1) * (pi / 64)))
        - d * cos (pi / 64))"
proof -
  define h :: real where "h = pi / 64"
  define m where "m = - (real (2 * i + 1) * h)"
  have a: "- (real i * (2 * pi / real (4 * quad_segs))) = m + h"
    by (simp add: quad_segs_def m_def h_def field_simps)
  have b: "- (real (Suc i) * (2 * pi / real (4 * quad_segs))) = m - h"
    by (simp add: quad_segs_def m_def h_def field_simps)
  have pyth: "sin m * sin m + cos m * cos m = 1"
    using sin_cos_squared_add [of m] by (simp add: power2_eq_square)
  have "cross (circle_vertex c d i) (circle_vertex c d (Suc i)) p =
      2 * d * sin h * ((fst p - fst c) * cos m + (snd p - snd c) * sin m - d * cos h)"
    unfolding cross_def circle_vertex_def a b fst_conv snd_conv
      cos_add sin_add cos_diff sin_diff
    by (rule cross_algebra [OF pyth])
  then show ?thesis
    by (simp only: m_def h_def)
qed

lemma pos_mult_less_0: "0 < (a::real) \<Longrightarrow> (a * b < 0) = (b < 0)"
  by (auto simp add: mult_less_0_iff)

lemma sin_cos_half_step_pos: "0 < sin (pi / 64)" "0 < cos (pi / 64)"
proof -
  have "0 < pi / 64" "pi / 64 < pi / 2" "pi / 64 < pi"
    using pi_gt_zero by simp_all
  then show "0 < sin (pi / 64)" "0 < cos (pi / 64)"
    by (simp_all add: sin_gt_zero cos_gt_zero)
qed

lemma within_ring_buffer_edges:
  "within_ring (buffer_point c d) p \<longleftrightarrow>
     0 < d \<and> (\<forall>i<64. (fst p - fst c) * cos (- (real (2 * i + 1) * (pi / 64)))
                      + (snd p - snd c) * sin (- (real (2 * i + 1) * (pi / 64)))
                      < d * cos (pi / 64))"
proof (cases "0 < d")
  case False
  then show ?thesis by (simp add: within_ring_buffer_iff)
next
  case True
  then have pos: "0 < 2 * d * sin (pi / 64)"
    using sin_cos_half_step_pos(1) by simp
  have "(cross (circle_vertex c d i) (circle_vertex c d (Suc i)) p < 0)
        = ((fst p - fst c) * cos (- (real (2 * i + 1) * (pi / 64)))
            + (snd p - snd c) * sin (- (real (2 * i + 1) * (pi / 64)))
            < d * cos (pi / 64))" for i
    unfolding cross_circle_edge pos_mult_less_0 [OF pos] by auto
  then show ?thesis
    using True by (simp add: within_ring_buffer_iff)
qed

text \<open>
  The buffer polygon lies inside the open disk of radius \<open>d\<close>: the direction of a point
  within it is at most \<open>pi / 64\<close> away from the normal of one of the 64 edges.
\<close>

lemma within_ring_inside_circle:
  assumes "within_ring (buffer_point c d) p"
  shows "dist2 p c < d\<^sup>2"
proof -
  define qx where "qx = fst p - fst c"
  define qy where "qy = snd p - snd c"
  define h :: real where "h = pi / 64"
  have d: "0 < d"
    using assms by (simp add: within_ring_buffer_edges)
  have edges: "qx * cos (- (real (2 * i + 1) * h)) + qy * sin (- (real (2 * i + 1) * h))
                 < d * cos h" if "i < 64" for i
    using assms that unfolding within_ring_buffer_edges qx_def qy_def h_def by blast
  have h_pos: "0 < h" and h_pi: "h \<le> pi" and ch: "0 < cos h"
    using pi_gt_zero sin_cos_half_step_pos(2) by (simp_all add: h_def)
  show ?thesis
  proof (cases "qx = 0 \<and> qy = 0")
    case True
    then show ?thesis
      using d by (simp add: dist2_def qx_def qy_def)
  next
    case False
    define r where "r = sqrt (qx\<^sup>2 + qy\<^sup>2)"
    have sq_pos: "0 < qx\<^sup>2 + qy\<^sup>2"
      using False by (auto simp add: sum_power2_gt_zero_iff)
    then have r: "0 < r"
      by (simp add: r_def)
    have r2: "r\<^sup>2 = qx\<^sup>2 + qy\<^sup>2"
      using sq_pos by (simp add: r_def)
    have "(qx / r)\<^sup>2 + (qy / r)\<^sup>2 = (qx\<^sup>2 + qy\<^sup>2) / r\<^sup>2"
      by (simp add: power_divide add_divide_distrib)
    also have "\<dots> = 1"
      using False by (simp add: r2)
    finally have "(qx / r)\<^sup>2 + (qy / r)\<^sup>2 = 1" .
    then obtain t where t: "0 \<le> t" "t < 2 * pi" "qx / r = cos t" "qy / r = sin t"
      by (rule sincos_total_2pi)
    have qx: "qx = r * cos t" and qy: "qy = r * sin t"
      using t(3,4) r by (simp_all add: field_simps)
    define j where "j = nat \<lfloor>t / (2 * h)\<rfloor>"
    have quot: "0 \<le> t / (2 * h)"
      using t(1) h_pos by simp
    then have rj: "real j = of_int \<lfloor>t / (2 * h)\<rfloor>"
      by (simp add: j_def)
    have j_le: "real j \<le> t / (2 * h)" and j_gt: "t / (2 * h) < real j + 1"
      unfolding rj by linarith+
    have lo: "real j * (2 * h) \<le> t" and hi: "t < (real j + 1) * (2 * h)"
      using j_le j_gt h_pos by (simp_all add: field_simps)
    have "t / (2 * h) < 64"
      using t(2) h_pos by (simp add: h_def field_simps)
    then have "real j < 64"
      using j_le by linarith
    then have j64: "j < 64"
      by simp
    define i where "i = 63 - j"
    have i64: "i < 64"
      by (simp add: i_def)
    have ri: "real i = 63 - real j"
      using j64 by (simp add: i_def)
    have ang: "real (2 * i + 1) * h = 2 * pi - real (2 * j + 1) * h"
      by (simp add: ri h_def field_simps)
    define u where "u = t - real (2 * j + 1) * h"
    have u: "\<bar>u\<bar> \<le> h"
      using lo hi by (simp add: u_def abs_le_iff algebra_simps)
    have "cos h \<le> cos \<bar>u\<bar>"
      using u h_pi by (intro cos_monotone_0_pi_le) simp_all
    then have cu: "cos h \<le> cos u"
      by simp
    have "cos (- (real (2 * i + 1) * h)) = cos (2 * pi - real (2 * j + 1) * h)"
      by (simp only: cos_minus ang)
    then have c1: "cos (- (real (2 * i + 1) * h)) = cos (real (2 * j + 1) * h)"
      by (simp only: cos_2pi_minus)
    have "sin (- (real (2 * i + 1) * h)) = - sin (2 * pi - real (2 * j + 1) * h)"
      by (simp only: sin_minus ang)
    then have s1: "sin (- (real (2 * i + 1) * h)) = sin (real (2 * j + 1) * h)"
      by (simp only: sin_2pi_minus minus_minus)
    have "qx * cos (- (real (2 * i + 1) * h)) + qy * sin (- (real (2 * i + 1) * h))
          = r * (cos t * cos (real (2 * j + 1) * h) + sin t * sin (real (2 * j + 1) * h))"
      unfolding c1 s1 qx qy by (simp add: algebra_simps)
    also have "\<dots> = r * cos u"
      by (simp add: u_def cos_diff)
    finally have "r * cos u < d * cos h"
      using edges [OF i64] by simp
    moreover have "r * cos h \<le> r * cos u"
      using cu r by simp
    ultimately have "r * cos h < d * cos h"
      by linarith
    then have "r < d"
      using ch by simp
    then have "r\<^sup>2 < d\<^sup>2"
      using r by (simp add: power_strict_mono)
    then show ?thesis
      by (simp add: r2 dist2_def qx_def qy_def)
  qed
qed

text \<open>The buffer polygon contains the open disk of radius \<open>d * cos (pi / 64)\<close>.\<close>

lemma dot_unit_le:
  fixes qx qy cm sm :: real
  assumes "sm\<^sup>2 + cm\<^sup>2 = 1"
  shows "(qx * cm + qy * sm)\<^sup>2 \<le> qx\<^sup>2 + qy\<^sup>2"
proof -
  have "qx\<^sup>2 + qy\<^sup>2 = (qx\<^sup>2 + qy\<^sup>2) * (sm\<^sup>2 + cm\<^sup>2)"
    by (simp only: assms mult_1_right)
  also have "\<dots> = (qx * cm + qy * sm)\<^sup>2 + (qx * sm - qy * cm)\<^sup>2"
    by (simp add: power2_eq_square algebra_simps)
  finally show ?thesis
    by simp
qed

lemma inside_apothem_within_ring:
  assumes "0 < d" and "dist2 p c < (d * cos (pi / 64))\<^sup>2"
  shows "within_ring (buffer_point c d) p"
proof -
  have apo: "0 \<le> d * cos (pi / 64)"
    using assms(1) sin_cos_half_step_pos(2) by simp
  have "(fst p - fst c) * cos m + (snd p - snd c) * sin m < d * cos (pi / 64)" for m
  proof -
    have "((fst p - fst c) * cos m + (snd p - snd c) * sin m)\<^sup>2 \<le> dist2 p c"
      unfolding dist2_def by (rule dot_unit_le) simp
    then have "((fst p - fst c) * cos m + (snd p - snd c) * sin m)\<^sup>2 < (d * cos (pi / 64))\<^sup>2"
      using assms(2) by linarith
    then show ?thesis
      using apo by (rule power2_less_imp_less)
  qed
  then show ?thesis
    using assms(1) unfolding within_ring_buffer_edges by blast
qed

lemma cos_half_step_ge_half: "1 / 2 \<le> cos (pi / 64)"
proof -
  have "cos (pi / 3) \<le> cos (pi / 64)"
    using pi_gt_zero by (intro cos_monotone_0_pi_le) simp_all
  then show ?thesis
    by (simp add: cos_60)
qed

lemma point_landmark_listings_filter:
  "point_landmark_listings fdf c d =
     filter (\<lambda>r. within_ring (buffer_point c d) (longitude r, latitude r)) fdf"
proof -
  have "gdf_within (geometry fdf) (within_ring (buffer_point c d))
        = map (\<lambda>r. within_ring (buffer_point c d) (longitude r, latitude r)) fdf"
    by (induction fdf) (simp_all add: gdf_within_def geometry_def)
  then show ?thesis
    by (simp add: point_landmark_listings_def within_listings_def select_rows_map)
qed

text \<open>
  Claim C2 does not hold as stated: a listing exactly on the circle is not returned. The
  listing at \<open>(-74.0325, 40.7052)\<close> is at distance \<open>0.02\<close> from the Statue of Liberty,
  since its offset is \<open>(0.012, 0.016)\<close>, and the query with buffer \<open>0.02\<close> leaves it out.
\<close>

theorem boundary_listing_counterexample:
  "dist2 (longitude row_on_circle, latitude row_on_circle) statue_of_liberty = 0.02\<^sup>2
   \<and> sol_listings [row_on_circle] = []"
proof -
  have on: "dist2 (- 74.0325, 40.7052) statue_of_liberty = 0.02\<^sup>2"
    by (simp add: dist2_def statue_of_liberty_def power2_eq_square)
  have "\<not> within_ring (buffer_point statue_of_liberty 0.02) (- 74.0325, 40.7052)"
    using within_ring_inside_circle [of statue_of_liberty "0.02" "(- 74.0325, 40.7052)"] on
    by auto
  then show ?thesis
    using on by (simp add: sol_listings_def point_landmark_listings_filter example_rows)
qed

text \<open>
  Claim C2, amended. The query for a point landmark returns, in table order, exactly the
  listings whose coordinate is within the buffer polygon, the regular 64-gon inscribed in
  the circle of radius \<open>d\<close>. Every returned listing is at planar distance less than \<open>d\<close>
  from the landmark, so a listing at distance \<open>d\<close> is excluded; for \<open>d > 0\<close> every listing
  at distance less than \<open>d * cos (pi / 64)\<close> is returned; for \<open>d = 0\<close> nothing is returned.
  For the landmark \<open>(-74.0445, 40.6892)\<close> and buffer \<open>0.02\<close> the listing at
  \<open>(-74.0440, 40.6895)\<close> is returned and the one at \<open>(-73.9, 40.7)\<close> is not.
\<close>

theorem point_landmark_query:
  "point_landmark_listings fdf c d =
     filter (\<lambda>r. within_ring (buffer_point c d) (longitude r, latitude r)) fdf
   \<and> (\<forall>r \<in> set (point_landmark_listings fdf c d).
         0 < d \<and> dist2 (longitude r, latitude r) c < d\<^sup>2)
   \<and> (\<forall>r \<in> set fdf. 0 < d \<and> dist2 (longitude r, latitude r) c < (d * cos (pi / 64))\<^sup>2
         \<longrightarrow> r \<in> set (point_landmark_listings fdf c d))
   \<and> point_landmark_listings fdf c 0 = []"
proof (intro conjI ballI impI)
  show "point_landmark_listings fdf c d =
     filter (\<lambda>r. within_ring (buffer_point c d) (longitude r, latitude r)) fdf"
    by (rule point_landmark_listings_filter)
next
  fix r assume "r \<in> set (point_landmark_listings fdf c d)"
  then have w: "within_ring (buffer_point c d) (longitude r, latitude r)"
    by (simp add: point_landmark_listings_filter)
  show "0 < d"
    using w by (simp add: within_ring_buffer_iff)
  show "dist2 (longitude r, latitude r) c < d\<^sup>2"
    using w by (rule within_ring_inside_circle)
next
  fix r assume "r \<in> set fdf"
    and "0 < d \<and> dist2 (longitude r, latitude r) c < (d * cos (pi / 64))\<^sup>2"
  then show "r \<in> set (point_landmark_listings fdf c d)"
    by (simp add: point_landmark_listings_filter inside_apothem_within_ring)
next
  show "point_landmark_listings fdf c 0 = []"
    by (simp add: point_landmark_listings_filter within_ring_buffer_iff)
qed

theorem point_landmark_query_witness:
  "0 < (0.02::real) \<and> sol_listings [row_lo, row_hi] = [row_lo]"
proof -
  note q = point_landmark_query [of "[row_lo, row_hi]" statue_of_liberty "0.02"]
  have "(1 / 100 :: real) \<le> 0.02 * cos (pi / 64)"
    using cos_half_step_ge_half by simp
  then have "(1 / 100 :: real)\<^sup>2 \<le> (0.02 * cos (pi / 64))\<^sup>2"
    by (rule power_mono) simp
  then have near: "dist2 (longitude row_lo, latitude row_lo) statue_of_liberty
                     < (0.02 * cos (pi / 64))\<^sup>2"
    by (simp add: dist2_def statue_of_liberty_def example_rows power2_eq_square)
  have far: "\<not> dist2 (longitude row_hi, latitude row_hi) statue_of_liberty < 0.02\<^sup>2"
    by (simp add: dist2_def statue_of_liberty_def example_rows power2_eq_square)
  note q2 = q [THEN conjunct2, THEN conjunct1, rule_format]
  note q3 = q [THEN conjunct2, THEN conjunct2, THEN conjunct1, rule_format]
  have lo_in: "row_lo \<in> set (point_landmark_listings [row_lo, row_hi] statue_of_liberty 0.02)"
  proof (rule q3)
    show "row_lo \<in> set [row_lo, row_hi]"
      by simp
    show "0 < (0.02::real)
          \<and> dist2 (longitude row_lo, latitude row_lo) statue_of_liberty
              < (0.02 * cos (pi / 64))\<^sup>2"
      using near by simp
  qed
  have hi_out: "row_hi \<notin> set (point_landmark_listings [row_lo, row_hi] statue_of_liberty 0.02)"
  proof
    assume "row_hi \<in> set (point_landmark_listings [row_lo, row_hi] statue_of_liberty 0.02)"
    then have "dist2 (longitude row_hi, latitude row_hi) statue_of_liberty < 0.02\<^sup>2"
      by (rule q2 [THEN conjunct2])
    then show False
      using far by simp
  qed
  have ne: "row_lo \<noteq> row_hi"
    by (simp add: example_rows)
  have "point_landmark_listings [row_lo, row_hi] statue_of_liberty 0.02 = [row_lo]"
    using lo_in hi_out ne
    by (simp add: point_landmark_listings_filter split: if_splits)
  then show ?thesis
    by (simp add: sol_listings_def)
qed

end
